theory Spec2Isabelle
  imports Complex_Main
begin

section \<open>JavaScript values used by the viewer\<close>

text \<open>
  Board coordinates are JavaScript numbers that come out of integer arithmetic on
  character codes and parsed digits, so they are either an integer or \<open>NaN\<close>.
  Evaluations are JavaScript numbers too: finite doubles, read from JSON. A double is
  modelled by the real number it denotes. Comparisons, \<open>Math.abs\<close> and \<open>Math.ceil\<close>
  are exact on doubles; a subtraction or a division gives the exact result rounded to a
  double, and the rounding is the parameter \<open>rnd\<close> of the functions that compute with
  evaluations. The theorems about them hold for every \<open>rnd\<close>, the rounding of IEEE 754
  included.
  Strings are lists of 8-bit characters: square names, piece names and UCI moves are
  ASCII, and \<open>charCodeAt\<close> of such a character is its code.
\<close>

datatype jsnum = Num int | NaN

fun jsub :: "jsnum \<Rightarrow> jsnum \<Rightarrow> jsnum" where
  "jsub (Num a) (Num b) = Num (a - b)"
| "jsub _ _ = NaN"

text \<open>\<open>s.charCodeAt(0)\<close>: the code of the first character, \<open>NaN\<close> on the empty string.\<close>

definition charCodeAt0 :: "string \<Rightarrow> jsnum" where
  "charCodeAt0 s = (case s of [] \<Rightarrow> NaN | c # _ \<Rightarrow> Num (int (of_char c)))"

text \<open>\<open>s.charAt(i)\<close>: the one-character string at \<open>i\<close>, the empty string out of range.\<close>

definition charAt :: "string \<Rightarrow> nat \<Rightarrow> string" where
  "charAt s i = (if i < length s then [s ! i] else [])"

definition isDigit :: "char \<Rightarrow> bool" where
  "isDigit c = (48 \<le> (of_char c :: nat) \<and> (of_char c :: nat) \<le> 57)"

text \<open>
  \<open>parseInt\<close> on the strings \<open>charAt\<close> returns (at most one character): a decimal
  digit parses to its value, anything else, the empty string included, to \<open>NaN\<close>.
\<close>

definition parseInt :: "string \<Rightarrow> jsnum" where
  "parseInt s = (case s of
       [c] \<Rightarrow> (if isDigit c then Num (int (of_char c) - 48) else NaN)
     | _ \<Rightarrow> NaN)"

text \<open>
  Decimal rendering of integer-valued numbers, as template strings produce it;
  \<open>digitChar\<close> is only applied to numbers below ten.
\<close>

definition digitChar :: "nat \<Rightarrow> char" where
  "digitChar d = ''0123456789'' ! d"

fun showNat :: "nat \<Rightarrow> string" where
  "showNat n = (if n < 10 then [digitChar n] else showNat (n div 10) @ [digitChar (n mod 10)])"

declare showNat.simps [simp del]

definition showInt :: "int \<Rightarrow> string" where
  "showInt i = (if i < 0 then CHR ''-'' # showNat (nat (- i)) else showNat (nat i))"

definition showNum :: "jsnum \<Rightarrow> string" where
  "showNum x = (case x of Num i \<Rightarrow> showInt i | NaN \<Rightarrow> ''NaN'')"







section \<open>utils.ts and types.ts\<close>

record Position =
  row :: jsnum
  col :: jsnum

definition algebraicToIndices :: "string \<Rightarrow> Position" where
  "algebraicToIndices algebraic =
     (let file = jsub (charCodeAt0 algebraic) (charCodeAt0 ''a'');
          rank = jsub (Num 8) (parseInt (charAt algebraic 1))
      in \<lparr>row = rank, col = file\<rparr>)"

text \<open>
  \<open>map[pieceName] || ''\<close> over the six piece names; any other name gives the empty code.
  The names of the members that the object literal inherits (\<open>constructor\<close>, \<open>toString\<close>
  and the like), for which the lookup gives a function and not a \<open>ChessPiece\<close>, are not
  piece names of a game and are left out.
\<close>

definition pieceNameToChar :: "string \<Rightarrow> bool \<Rightarrow> string" where
  "pieceNameToChar pieceName isWhite =
     (if pieceName = ''pawn'' then (if isWhite then ''P'' else ''p'')
      else if pieceName = ''knight'' then (if isWhite then ''N'' else ''n'')
      else if pieceName = ''bishop'' then (if isWhite then ''B'' else ''b'')
      else if pieceName = ''rook'' then (if isWhite then ''R'' else ''r'')
      else if pieceName = ''queen'' then (if isWhite then ''Q'' else ''q'')
      else if pieceName = ''king'' then (if isWhite then ''K'' else ''k'')
      else '''')"

record MoveHighlight =
  fromRow :: jsnum
  fromCol :: jsnum
  toRow :: jsnum
  toCol :: jsnum
  piece :: string
  isCapture :: bool
  isCheck :: bool
  isCheckmate :: bool
  promotion :: "string option"
  castling :: "string option"
  isSuggested :: "bool option"
  evaluation :: "real option"
  isBestMove :: "bool option"
  isWorstMove :: "bool option"
  isFromBestMove :: "bool option"
  isRookCastling :: "bool option"

text \<open>The \<open>options\<close> argument of \<open>createMoveHighlight\<close>: every property may be absent.\<close>

record HighlightOptions =
  o_isCapture :: "bool option"
  o_isCheck :: "bool option"
  o_isCheckmate :: "bool option"
  o_promotion :: "string option"
  o_castling :: "string option"
  o_isSuggested :: "bool option"
  o_evaluation :: "real option"
  o_isBestMove :: "bool option"
  o_isWorstMove :: "bool option"
  o_isFromBestMove :: "bool option"

definition noOptions :: HighlightOptions where
  "noOptions = \<lparr>o_isCapture = None, o_isCheck = None, o_isCheckmate = None,
     o_promotion = None, o_castling = None, o_isSuggested = None, o_evaluation = None,
     o_isBestMove = None, o_isWorstMove = None, o_isFromBestMove = None\<rparr>"

text \<open>\<open>b || false\<close> on an optional boolean.\<close>

definition orFalse :: "bool option \<Rightarrow> bool" where
  "orFalse b = (case b of None \<Rightarrow> False | Some v \<Rightarrow> v)"

text \<open>Truthiness of an optional string: present and not empty.\<close>

definition truthyStr :: "string option \<Rightarrow> bool" where
  "truthyStr s = (case s of None \<Rightarrow> False | Some v \<Rightarrow> v \<noteq> [])"

definition createMoveHighlight ::
  "string \<Rightarrow> string \<Rightarrow> string \<Rightarrow> string \<Rightarrow> HighlightOptions \<Rightarrow> MoveHighlight" where
  "createMoveHighlight from_sq to_sq pieceName color options =
     (let fromPos = algebraicToIndices from_sq;
          toPos = algebraicToIndices to_sq
      in \<lparr>fromRow = row fromPos,
          fromCol = col fromPos,
          toRow = row toPos,
          toCol = col toPos,
          piece = pieceNameToChar pieceName (color = ''white''),
          isCapture = orFalse (o_isCapture options),
          isCheck = orFalse (o_isCheck options),
          isCheckmate = orFalse (o_isCheckmate options),
          promotion = (if truthyStr (o_promotion options)
                       then Some (pieceNameToChar (the (o_promotion options)) (color = ''white''))
                       else None),
          castling = o_castling options,
          isSuggested = o_isSuggested options,
          evaluation = o_evaluation options,
          isBestMove = o_isBestMove options,
          isWorstMove = o_isWorstMove options,
          isFromBestMove = o_isFromBestMove options,
          isRookCastling = None\<rparr>)"

text \<open>
  A square string is malformed when it has fewer than two characters, when its file
  letter is outside a--h or when its rank digit is outside 1--8; a coordinate is on the
  board when it is an integer from 0 to 7.
\<close>

definition malformedSquare :: "string \<Rightarrow> bool" where
  "malformedSquare s =
     (length s < 2 \<or> s ! 0 \<notin> set ''abcdefgh'' \<or> s ! 1 \<notin> set ''12345678'')"

definition onBoard :: "jsnum \<Rightarrow> bool" where
  "onBoard x = (case x of Num i \<Rightarrow> 0 \<le> i \<and> i \<le> 7 | NaN \<Rightarrow> False)"


section \<open>Move quality and evaluation display (components.tsx, PositionAnalysis.tsx)\<close>









section \<open>Game data (types.ts)\<close>

text \<open>
  Of a \<open>MoveDetail\<close> the fields that the navigation code reads; \<open>ChessGame\<close> likewise
  (players, result and time control are only displayed). The analysis table is an
  optional array whose entries may be \<open>null\<close>.
\<close>

record MoveDetail =
  m_from :: string
  m_to :: string
  m_piece :: string
  m_color :: string
  m_capture :: bool
  m_check :: bool
  m_checkmate :: bool
  m_castling :: "string option"
  m_promotion :: "string option"
  m_evaluation :: "real option"

record AnalysisMove =
  uci :: string
  san :: string
  am_evaluation :: real

record PositionAnalysisData =
  a_evaluation :: real
  bestMoves :: "AnalysisMove list"
  worstMoves :: "AnalysisMove list option"

record ChessGame =
  moves :: "MoveDetail list"
  positions :: "string list"
  analysis :: "PositionAnalysisData option list option"

text \<open>Array reads at a number: \<open>undefined\<close> outside the array.\<close>

definition arrayAt :: "'a list \<Rightarrow> int \<Rightarrow> 'a option" where
  "arrayAt xs i = (if 0 \<le> i \<and> nat i < length xs then Some (xs ! nat i) else None)"

text \<open>\<open>gameData.analysis && gameData.analysis[i]\<close>: the entry when it is there and not null.\<close>

definition analysisAt :: "ChessGame \<Rightarrow> int \<Rightarrow> PositionAnalysisData option" where
  "analysisAt g i =
     (case analysis g of
        None \<Rightarrow> None
      | Some xs \<Rightarrow> (case arrayAt xs i of Some (Some a) \<Rightarrow> Some a | _ \<Rightarrow> None))"

record SuggestedMoves =
  best :: "MoveHighlight list option"
  worst :: "MoveHighlight list option"

definition noSuggestions :: SuggestedMoves where
  "noSuggestions = \<lparr>best = None, worst = None\<rparr>"


section \<open>The Home component (home.tsx)\<close>

text \<open>
  The component state, one field per \<open>useState\<close> cell that the navigation handlers
  touch, and the two kinds of pending asynchronous work: evaluation requests in flight
  and restoration timers set by \<open>setTimeout\<close>. A handler is a function from the state
  of the render it closes over to the state after its updates.

  A request in flight remembers the ply it was issued for and the two display flags its
  continuation closes over. A timer remembers the ply and game its callback closes over.
\<close>

record EvalRequest =
  r_fen :: string
  r_moveIndex :: int
  r_showSuggestedMoves :: bool
  r_showingBestMove :: bool

record RestoreTimer =
  t_currentMove :: int
  t_gameData :: "ChessGame option"

record HomeState =
  gameData :: "ChessGame option"
  currentMove :: int
  moveHighlight :: "MoveHighlight option"
  suggestedMoves :: SuggestedMoves
  autoPlay :: bool
  analyzeGame :: bool
  analyzingPosition :: bool
  showSuggestedMoves :: bool
  showingBestMove :: bool
  previousPositionEval :: "real option"
  requests :: "EvalRequest list"
  timers :: "RestoreTimer list"


text \<open>
  \<open>updateSuggestedMoves\<close> reads the flags \<open>showSuggestedMoves\<close> and \<open>showingBestMove\<close>
  from its closure; they are its first two arguments here. The result is the value
  passed to \<open>setSuggestedMoves\<close>.
\<close>

definition bestHighlight :: "nat \<Rightarrow> AnalysisMove \<Rightarrow> MoveHighlight" where
  "bestHighlight i move =
     createMoveHighlight (take 2 (uci move)) (take 2 (drop 2 (uci move))) ''pawn'' ''white''
       (noOptions\<lparr>o_evaluation := Some (am_evaluation move),
                  o_isBestMove := Some (i = 0),
                  o_isSuggested := Some (i > 0),
                  o_isFromBestMove := Some True\<rparr>)"

definition worstHighlight :: "AnalysisMove \<Rightarrow> MoveHighlight" where
  "worstHighlight move =
     createMoveHighlight (take 2 (uci move)) (take 2 (drop 2 (uci move))) ''pawn'' ''white''
       (noOptions\<lparr>o_evaluation := Some (am_evaluation move),
                  o_isWorstMove := Some True\<rparr>)"

definition updateSuggestedMoves ::
  "bool \<Rightarrow> bool \<Rightarrow> PositionAnalysisData option \<Rightarrow> SuggestedMoves" where
  "updateSuggestedMoves showSuggested showingBest analysisData =
     (case analysisData of
        None \<Rightarrow> noSuggestions
      | Some a \<Rightarrow>
          if \<not> showSuggested \<and> \<not> showingBest then noSuggestions
          else
            let maxMoves = (if showingBest then 1 else if showSuggested then 2 else 0 :: nat);
                bestList =
                  (if length (bestMoves a) > 0
                   then map (\<lambda>i. bestHighlight i (bestMoves a ! i))
                          [0 ..< min maxMoves (length (bestMoves a))]
                   else []);
                worstList =
                  (case worstMoves a of
                     Some (w # ws) \<Rightarrow>
                       if showSuggested \<and> \<not> showingBest then [worstHighlight w] else []
                   | _ \<Rightarrow> [])
            in \<lparr>best = Some bestList, worst = Some worstList\<rparr>)"

text \<open>The primary highlight of a played move, as \<open>handleMoveChange\<close> builds it.\<close>

definition moveOptions :: "MoveDetail \<Rightarrow> HighlightOptions" where
  "moveOptions move =
     noOptions\<lparr>o_isCapture := Some (m_capture move),
                o_isCheck := Some (m_check move),
                o_isCheckmate := Some (m_checkmate move),
                o_promotion := m_promotion move,
                o_castling := m_castling move\<rparr>"

definition playedHighlight :: "MoveDetail \<Rightarrow> MoveHighlight" where
  "playedHighlight move =
     createMoveHighlight (m_from move) (m_to move) (m_piece move) (m_color move)
       ((moveOptions move)\<lparr>o_evaluation := m_evaluation move\<rparr>)"

text \<open>
  \<open>analyzePosition\<close> up to its \<open>await\<close>: the request is sent at once and stays in flight
  until its continuation runs.
\<close>

definition analyzePosition :: "bool \<Rightarrow> string \<Rightarrow> int \<Rightarrow> HomeState \<Rightarrow> HomeState" where
  "analyzePosition closureShowingBest fen moveIndex s =
     (case gameData s of
        None \<Rightarrow> s
      | Some g \<Rightarrow>
          s\<lparr>analyzingPosition := True,
            requests := requests s @
              [\<lparr>r_fen = fen, r_moveIndex = moveIndex,
                r_showSuggestedMoves = showSuggestedMoves s,
                r_showingBestMove = closureShowingBest\<rparr>]\<rparr>)"

text \<open>
  \<open>handleMoveChange\<close> is memoised on \<open>gameData\<close>, \<open>analyzeGame\<close>, \<open>showSuggestedMoves\<close>
  and \<open>currentMove\<close>, so these are read from the current state. \<open>showingBestMove\<close> is
  not among the dependencies: the value that the captured \<open>updateSuggestedMoves\<close> and
  \<open>analyzePosition\<close> see is the one of the render that last rebuilt the callback. It
  is the argument \<open>closureShowingBest\<close>. Inside the guard \<open>moves[moveIndex - 1]\<close> is
  in range, so no read fails and the handler raises nothing.
\<close>

definition handleMoveChange :: "bool \<Rightarrow> int \<Rightarrow> HomeState \<Rightarrow> HomeState" where
  "handleMoveChange closureShowingBest moveIndex s =
     (case gameData s of
        None \<Rightarrow> s
      | Some g \<Rightarrow>
          if moveIndex < 0 \<or> moveIndex > int (length (moves g)) then s
          else
            let s1 = (case analysisAt g (currentMove s) of
                        Some a \<Rightarrow> s\<lparr>previousPositionEval := Some (a_evaluation a)\<rparr>
                      | None \<Rightarrow> s);
                s2 = s1\<lparr>currentMove := moveIndex\<rparr>;
                s3 = s2\<lparr>showingBestMove := False\<rparr>;
                s4 = (if analysisAt g moveIndex \<noteq> None \<and> showSuggestedMoves s
                      then s3\<lparr>suggestedMoves :=
                             updateSuggestedMoves (showSuggestedMoves s) closureShowingBest
                               (analysisAt g moveIndex)\<rparr>
                      else s3\<lparr>suggestedMoves := noSuggestions\<rparr>)
            in if moveIndex > 0 then
                 let move = moves g ! nat (moveIndex - 1);
                     s5 = s4\<lparr>moveHighlight := Some (playedHighlight move)\<rparr>
                 in if analyzeGame s \<and> truthyStr (arrayAt (positions g) moveIndex)
                       \<and> analysisAt g moveIndex = None
                    then analyzePosition closureShowingBest
                           (the (arrayAt (positions g) moveIndex)) moveIndex s5
                    else s5
               else s4\<lparr>moveHighlight := None\<rparr>)"

text \<open>
  The continuation of \<open>analyzePosition\<close> on a response: the analysis array is created
  if missing, padded with \<open>null\<close> up to the ply and written at the ply; the overlay is
  recomputed from the response under the flags of the closure; the request is no longer
  in flight. The game object that the closure mutates and puts back, as a shallow copy,
  is the one it captured when the request was sent. The states of this model all hold
  the game that was loaded: no transition loads another one, moves and positions are
  never written, and the analysis array, created in place in the loaded object, is
  shared by every copy. So the captured game after the write and the game of the state
  after the write are the same value, and the merge is written on the game of the state.
  Requests are only sent for plies from 0 on; a negative index would leave the elements
  of the array as they are.
\<close>

definition mergeAnalysis :: "ChessGame \<Rightarrow> int \<Rightarrow> PositionAnalysisData \<Rightarrow> ChessGame" where
  "mergeAnalysis g moveIndex data =
     (let xs = (case analysis g of None \<Rightarrow> [] | Some ys \<Rightarrow> ys);
          padded = xs @ replicate (nat (moveIndex + 1) - length xs) None
      in if moveIndex < 0 then g\<lparr>analysis := Some xs\<rparr>
         else g\<lparr>analysis := Some (padded[nat moveIndex := Some data])\<rparr>)"

definition analysisResolved :: "EvalRequest \<Rightarrow> PositionAnalysisData \<Rightarrow> HomeState \<Rightarrow> HomeState" where
  "analysisResolved r data s =
     (case gameData s of
        None \<Rightarrow> s\<lparr>analyzingPosition := False, requests := remove1 r (requests s)\<rparr>
      | Some g \<Rightarrow>
          let s1 = s\<lparr>gameData := Some (mergeAnalysis g (r_moveIndex r) data)\<rparr>;
              s2 = (if r_showSuggestedMoves r \<or> r_showingBestMove r
                    then s1\<lparr>suggestedMoves :=
                           updateSuggestedMoves (r_showSuggestedMoves r) (r_showingBestMove r)
                             (Some data)\<rparr>
                    else s1)
          in s2\<lparr>analyzingPosition := False, requests := remove1 r (requests s)\<rparr>)"







text \<open>
  Autoplay. The interval effect depends on \<open>autoPlay\<close>, \<open>currentMove\<close>, \<open>gameData\<close>
  and the speed: after every change of one of them the old interval is cleared and a
  new one is set only under the effect's condition, so whether an interval is running
  is a function of the state. A tick applies the updater passed to \<open>setCurrentMove\<close>
  to the current ply; the change of \<open>currentMove\<close> then runs the second effect, which
  calls the freshly rebuilt \<open>handleMoveChange\<close> on the new ply.
\<close>

definition intervalRunning :: "HomeState \<Rightarrow> bool" where
  "intervalRunning s =
     (case gameData s of
        None \<Rightarrow> False
      | Some g \<Rightarrow> autoPlay s \<and> currentMove s < int (length (moves g)))"

definition syncEffect :: "HomeState \<Rightarrow> HomeState" where
  "syncEffect s =
     (if gameData s \<noteq> None then handleMoveChange (showingBestMove s) (currentMove s) s else s)"

definition autoplayTick :: "HomeState \<Rightarrow> HomeState" where
  "autoplayTick s =
     (case gameData s of
        None \<Rightarrow> s
      | Some g \<Rightarrow>
          if \<not> intervalRunning s then s
          else
            let prev = currentMove s
            in if prev \<ge> int (length (moves g)) then s\<lparr>autoPlay := False\<rparr>
               else syncEffect (s\<lparr>currentMove := prev + 1\<rparr>))"

text \<open>The play/pause button: \<open>setAutoPlay(!autoPlay)\<close>.\<close>

definition toggleAutoPlay :: "HomeState \<Rightarrow> HomeState" where
  "toggleAutoPlay s = s\<lparr>autoPlay := \<not> autoPlay s\<rparr>"


section \<open>The highlight map of the Chessboard component (components.tsx)\<close>

text \<open>
  \<open>allHighlights\<close> is an object keyed by the template string \<open>row-col\<close>. Its values
  are objects, so an entry is truthy exactly when it is present.
\<close>

type_synonym highlights = "string \<rightharpoonup> MoveHighlight"

definition squareKey :: "jsnum \<Rightarrow> jsnum \<Rightarrow> string" where
  "squareKey r c = showNum r @ ''-'' @ showNum c"

definition primaryHighlights :: "MoveHighlight option \<Rightarrow> highlights" where
  "primaryHighlights highlight =
     (case highlight of
        None \<Rightarrow> Map.empty
      | Some h \<Rightarrow>
          let fromKey = squareKey (fromRow h) (fromCol h);
              m1 = Map.empty(fromKey \<mapsto> h);
              toKey = squareKey (toRow h) (toCol h);
              m2 = m1(toKey \<mapsto> h)
          in if truthyStr (castling h) then
               let isKingside = (castling h = Some ''kingside'');
                   rookRow = fromRow h;
                   rookFromCol = (if isKingside then Num 7 else Num 0);
                   m3 = m2(squareKey rookRow rookFromCol \<mapsto> h\<lparr>isRookCastling := Some True\<rparr>);
                   rookToCol = (if isKingside then Num 5 else Num 3)
               in m3(squareKey rookRow rookToCol \<mapsto> h\<lparr>isRookCastling := Some True\<rparr>)
             else m2)"

definition addBestMove :: "highlights \<Rightarrow> MoveHighlight \<Rightarrow> highlights" where
  "addBestMove m move =
     (let fromKey = squareKey (fromRow move) (fromCol move);
          toKey = squareKey (toRow move) (toCol move);
          m1 = (if m fromKey = None then m(fromKey \<mapsto> move\<lparr>isFromBestMove := Some True\<rparr>) else m)
      in if m1 toKey = None then m1(toKey \<mapsto> move) else m1)"

definition addWorstMove :: "highlights \<Rightarrow> MoveHighlight \<Rightarrow> highlights" where
  "addWorstMove m move =
     (let toKey = squareKey (toRow move) (toCol move)
      in if m toKey = None then m(toKey \<mapsto> move) else m)"

definition allHighlights :: "MoveHighlight option \<Rightarrow> SuggestedMoves \<Rightarrow> highlights" where
  "allHighlights highlight suggested =
     (let m0 = primaryHighlights highlight;
          m1 = (case best suggested of None \<Rightarrow> m0 | Some bs \<Rightarrow> foldl addBestMove m0 bs)
      in case worst suggested of None \<Rightarrow> m1 | Some ws \<Rightarrow> foldl addWorstMove m1 ws)"

text \<open>
  The background and border classes of the square at \<open>rowIndex\<close>, \<open>colIndex\<close> holding
  \<open>piece\<close>. With no primary highlight the keys compared against are built from
  \<open>undefined\<close> and match no square.
\<close>

definition isKingCode :: "string \<Rightarrow> bool" where
  "isKingCode p = (p = ''k'' \<or> p = ''K'')"

definition squareClasses ::
  "MoveHighlight option \<Rightarrow> highlights \<Rightarrow> string \<Rightarrow> nat \<Rightarrow> nat \<Rightarrow> string \<times> string" where
  "squareClasses highlight allH pieceCode rowIndex colIndex =
     (let isBlack = ((rowIndex + colIndex) mod 2 = 1);
          key = squareKey (Num (int rowIndex)) (Num (int colIndex));
          highlightInfo = allH key;
          plain = (if isBlack then ''bg-gray-600'' else ''bg-gray-200'');
          primaryFrom = (case highlight of None \<Rightarrow> False
                         | Some h \<Rightarrow> key = squareKey (fromRow h) (fromCol h));
          primaryTo = (case highlight of None \<Rightarrow> False
                       | Some h \<Rightarrow> key = squareKey (toRow h) (toCol h));
          primaryCapture = (case highlight of None \<Rightarrow> False | Some h \<Rightarrow> isCapture h);
          primaryCheck = (case highlight of None \<Rightarrow> False | Some h \<Rightarrow> isCheck h);
          classes =
            (case highlightInfo of
               None \<Rightarrow> (plain, [])
             | Some info \<Rightarrow>
                 if primaryFrom then (''bg-yellow-300'', [])
                 else if primaryTo then
                   (if primaryCapture then ''bg-red-400'' else ''bg-green-400'', [])
                 else if isRookCastling info = Some True then (''bg-blue-300'', [])
                 else if isFromBestMove info = Some True then
                   (if isBlack then ''bg-emerald-700'' else ''bg-emerald-400'',
                    ''border-2 border-emerald-500'')
                 else if isBestMove info = Some True then
                   (''bg-emerald-300'', ''border-2 border-emerald-600'')
                 else if isWorstMove info = Some True then
                   (''bg-red-300'', ''border-2 border-red-600'')
                 else if isSuggested info = Some True then
                   (''bg-blue-200'', ''border border-blue-400'')
                 else (plain, []));
          isKingUnderCheck = (primaryCheck \<and> isKingCode pieceCode \<and> highlightInfo = None)
      in (fst classes, if isKingUnderCheck then ''border-2 border-red-500'' else snd classes))"


text \<open>An absent list (\<open>undefined\<close>) is treated as empty wherever the overlay is read.\<close>

definition orEmpty :: "'a list option \<Rightarrow> 'a list" where
  "orEmpty xs = (case xs of None \<Rightarrow> [] | Some ys \<Rightarrow> ys)"


section \<open>Sample data\<close>

text \<open>
  A game of two plies (1. e4 e5), an analysis for the initial position and one for the
  position after the first ply, and the state right after the game was loaded.
\<close>

definition demoMoves :: "MoveDetail list" where
  "demoMoves =
     [\<lparr>m_from = ''e2'', m_to = ''e4'', m_piece = ''pawn'', m_color = ''white'',
       m_capture = False, m_check = False, m_checkmate = False,
       m_castling = None, m_promotion = None, m_evaluation = Some (3 / 10)\<rparr>,
      \<lparr>m_from = ''e7'', m_to = ''e5'', m_piece = ''pawn'', m_color = ''black'',
       m_capture = False, m_check = False, m_checkmate = False,
       m_castling = None, m_promotion = None, m_evaluation = None\<rparr>]"

definition demoPositions :: "string list" where
  "demoPositions =
     [''rnbqkbnr/pppppppp/8/8/8/8/PPPPPPPP/RNBQKBNR w KQkq - 0 1'',
      ''rnbqkbnr/pppppppp/8/8/4P3/8/PPPP1PPP/RNBQKBNR b KQkq - 0 1'',
      ''rnbqkbnr/pppp1ppp/8/4p3/4P3/8/PPPP1PPP/RNBQKBNR w KQkq - 0 2'']"

definition demoAnalysis0 :: PositionAnalysisData where
  "demoAnalysis0 =
     \<lparr>a_evaluation = 2 / 10,
      bestMoves = [\<lparr>uci = ''e2e4'', san = ''e4'', am_evaluation = 3 / 10\<rparr>,
                   \<lparr>uci = ''d2d4'', san = ''d4'', am_evaluation = 3 / 10\<rparr>,
                   \<lparr>uci = ''g1f3'', san = ''Nf3'', am_evaluation = 2 / 10\<rparr>],
      worstMoves = Some [\<lparr>uci = ''g2g4'', san = ''g4'', am_evaluation = - 1\<rparr>,
                         \<lparr>uci = ''f2f3'', san = ''f3'', am_evaluation = - 8 / 10\<rparr>]\<rparr>"

definition demoAnalysis1 :: PositionAnalysisData where
  "demoAnalysis1 =
     \<lparr>a_evaluation = 3 / 10,
      bestMoves = [\<lparr>uci = ''e7e5'', san = ''e5'', am_evaluation = 3 / 10\<rparr>,
                   \<lparr>uci = ''c7c5'', san = ''c5'', am_evaluation = 4 / 10\<rparr>],
      worstMoves = None\<rparr>"

definition demoGame :: ChessGame where
  "demoGame = \<lparr>moves = demoMoves, positions = demoPositions, analysis = None\<rparr>"

definition demoGameAnalysed :: ChessGame where
  "demoGameAnalysed = demoGame\<lparr>analysis := Some [Some demoAnalysis0, Some demoAnalysis1]\<rparr>"

definition loadedState :: "ChessGame \<Rightarrow> HomeState" where
  "loadedState g =
     \<lparr>gameData = Some g, currentMove = 0, moveHighlight = None,
      suggestedMoves = noSuggestions, autoPlay = False, analyzeGame = False,
      analyzingPosition = False, showSuggestedMoves = True, showingBestMove = False,
      previousPositionEval = None, requests = [], timers = []\<rparr>"





definition demoRequest :: EvalRequest where
  "demoRequest =
     \<lparr>r_fen = ''rnbqkbnr/pppppppp/8/8/4P3/8/PPPP1PPP/RNBQKBNR b KQkq - 0 1'',
      r_moveIndex = 1, r_showSuggestedMoves = True, r_showingBestMove = False\<rparr>"

definition demoPrimary :: MoveHighlight where
  "demoPrimary = playedHighlight (demoMoves ! 0)"

definition demoOverlay :: SuggestedMoves where
  "demoOverlay = updateSuggestedMoves True False (Some demoAnalysis0)"

text \<open>
  White castling short, and an overlay whose best move ends on the rook's destination
  f1 and whose worst move ends on the rook's origin h1.
\<close>

definition demoCastle :: MoveHighlight where
  "demoCastle = createMoveHighlight ''e1'' ''g1'' ''king'' ''white''
     (noOptions\<lparr>o_castling := Some ''kingside''\<rparr>)"

definition demoCastleOverlay :: SuggestedMoves where
  "demoCastleOverlay =
     \<lparr>best = Some [bestHighlight 0 \<lparr>uci = ''h1f1'', san = ''Rf1'', am_evaluation = 1 / 10\<rparr>],
      worst = Some [worstHighlight \<lparr>uci = ''g1h1'', san = ''Kh1'', am_evaluation = - 1\<rparr>]\<rparr>"


section \<open>Coordinates of malformed squares\<close>

lemma code_range_char:
  fixes c :: char
  assumes "lo \<le> (of_char c :: nat)" and "(of_char c :: nat) < hi"
  shows "c \<in> set (map char_of [lo ..< hi])"
proof -
  from assms have "(of_char c :: nat) \<in> set [lo ..< hi]"
    by (simp only: set_upt atLeastLessThan_iff)
  then have "char_of (of_char c :: nat) \<in> char_of ` set [lo ..< hi]"
    by (rule imageI)
  then show ?thesis by (simp only: set_map char_of_char)
qed

lemma file_letter_code:
  "(c \<in> set ''abcdefgh'') = (97 \<le> (of_char c :: nat) \<and> (of_char c :: nat) \<le> 104)"
proof
  assume "c \<in> set ''abcdefgh''"
  then have "c = CHR ''a'' \<or> c = CHR ''b'' \<or> c = CHR ''c'' \<or> c = CHR ''d'' \<or> c = CHR ''e''
     \<or> c = CHR ''f'' \<or> c = CHR ''g'' \<or> c = CHR ''h''" by simp
  then show "97 \<le> (of_char c :: nat) \<and> (of_char c :: nat) \<le> 104"
    by (elim disjE) simp_all
next
  assume "97 \<le> (of_char c :: nat) \<and> (of_char c :: nat) \<le> 104"
  then have "c \<in> set (map char_of [97 ..< 105 :: nat])" by (intro code_range_char) simp_all
  also have "map char_of [97 ..< 105 :: nat] = ''abcdefgh''" by code_simp
  finally show "c \<in> set ''abcdefgh''" .
qed

lemma rank_digit_code:
  "(c \<in> set ''12345678'') = (49 \<le> (of_char c :: nat) \<and> (of_char c :: nat) \<le> 56)"
proof
  assume "c \<in> set ''12345678''"
  then have "c = CHR ''1'' \<or> c = CHR ''2'' \<or> c = CHR ''3'' \<or> c = CHR ''4'' \<or> c = CHR ''5''
     \<or> c = CHR ''6'' \<or> c = CHR ''7'' \<or> c = CHR ''8''" by simp
  then show "49 \<le> (of_char c :: nat) \<and> (of_char c :: nat) \<le> 56"
    by (elim disjE) simp_all
next
  assume "49 \<le> (of_char c :: nat) \<and> (of_char c :: nat) \<le> 56"
  then have "c \<in> set (map char_of [49 ..< 57 :: nat])" by (intro code_range_char) simp_all
  also have "map char_of [49 ..< 57 :: nat] = ''12345678''" by code_simp
  finally show "c \<in> set ''12345678''" .
qed

lemma col_value: "col (algebraicToIndices (c # cs)) = Num (int (of_char c) - 97)"
  by (simp add: algebraicToIndices_def charCodeAt0_def Let_def)

lemma col_onBoard:
  "onBoard (col (algebraicToIndices s)) = (s \<noteq> [] \<and> s ! 0 \<in> set ''abcdefgh'')"
proof (cases s)
  case Nil
  then show ?thesis by (simp add: algebraicToIndices_def charCodeAt0_def onBoard_def Let_def)
next
  case (Cons c cs)
  have "onBoard (Num (int (of_char c) - 97)) = (c \<in> set ''abcdefgh'')"
    unfolding file_letter_code onBoard_def by (simp only: jsnum.case) linarith
  with Cons show ?thesis by (simp only: col_value nth_Cons_0) simp
qed

lemma row_onBoard:
  "onBoard (row (algebraicToIndices s)) = (2 \<le> length s \<and> s ! 1 \<in> set ''12345678'')"
proof (cases "2 \<le> length s")
  case False
  then have "charAt s 1 = []" by (simp add: charAt_def)
  then have "row (algebraicToIndices s) = NaN"
    by (simp add: algebraicToIndices_def parseInt_def Let_def)
  with False show ?thesis by (simp add: onBoard_def)
next
  case True
  then have ch: "charAt s 1 = [s ! 1]" by (simp add: charAt_def)
  have "onBoard (jsub (Num 8) (parseInt [c])) = (c \<in> set ''12345678'')" for c
    unfolding rank_digit_code parseInt_def isDigit_def onBoard_def
    by (cases "48 \<le> (of_char c :: nat) \<and> (of_char c :: nat) \<le> 57") (simp_all, linarith+)
  with True ch show ?thesis by (simp add: algebraicToIndices_def Let_def)
qed

text \<open>
  C9, as the specification states it: on a malformed square \<open>algebraicToIndices\<close> fails.
  It does not: none of \<open>charCodeAt\<close>, \<open>charAt\<close>, \<open>parseInt\<close> and the subtraction raises on
  a string, and the function has no check of its own. On the malformed square \<open>z9\<close> it
  returns row -1 and column 25.
\<close>

theorem algebraicToIndices_malformed_returns:
  "malformedSquare ''z9'' \<and> algebraicToIndices ''z9'' = \<lparr>row = Num (- 1), col = Num 25\<rparr>"
  by (simp add: malformedSquare_def algebraicToIndices_def charCodeAt0_def charAt_def
      parseInt_def isDigit_def Let_def)

text \<open>
  C9, amended: on every malformed square string (fewer than two characters, file letter
  outside a--h, or rank digit outside 1--8) \<open>algebraicToIndices\<close> returns a pair that is
  not a board coordinate: its row or its column is \<open>NaN\<close> or lies outside 0..7.
\<close>

theorem algebraicToIndices_malformed_off_board:
  "malformedSquare s \<Longrightarrow>
     \<not> (onBoard (row (algebraicToIndices s)) \<and> onBoard (col (algebraicToIndices s)))"
  unfolding malformedSquare_def row_onBoard col_onBoard by auto

theorem algebraicToIndices_malformed_off_board_witness:
  "malformedSquare ''i4''
   \<and> \<not> (onBoard (row (algebraicToIndices ''i4'')) \<and> onBoard (col (algebraicToIndices ''i4'')))"
proof -
  have m: "malformedSquare ''i4''" by (simp add: malformedSquare_def)
  from m algebraicToIndices_malformed_off_board [OF m] show ?thesis by simp
qed


section \<open>Move quality\<close>




section \<open>Evaluation display\<close>














section \<open>The suggested-move overlay\<close>

lemma createMoveHighlight_pawn_white:
  "piece (createMoveHighlight f t ''pawn'' ''white'' opts) = ''P''"
  by (simp add: createMoveHighlight_def pieceNameToChar_def Let_def)

lemma best_pieces:
  "h \<in> set (orEmpty (best (updateSuggestedMoves ss sb ad))) \<Longrightarrow> piece h = ''P''"
  by (auto simp: updateSuggestedMoves_def orEmpty_def noSuggestions_def Let_def bestHighlight_def
      createMoveHighlight_pawn_white split: option.splits if_splits)

lemma worst_pieces:
  "h \<in> set (orEmpty (worst (updateSuggestedMoves ss sb ad))) \<Longrightarrow> piece h = ''P''"
  by (auto simp: updateSuggestedMoves_def orEmpty_def noSuggestions_def Let_def worstHighlight_def
      createMoveHighlight_pawn_white split: option.splits if_splits list.splits)

lemma best_length:
  "length (orEmpty (best (updateSuggestedMoves ss sb ad))) \<le> (if sb then 1 else 2)"
  by (auto simp: updateSuggestedMoves_def orEmpty_def noSuggestions_def Let_def
      split: option.splits)

lemma worst_length:
  "length (orEmpty (worst (updateSuggestedMoves ss sb ad))) \<le> (if sb then 0 else 1)"
  by (auto simp: updateSuggestedMoves_def orEmpty_def noSuggestions_def Let_def
      split: option.splits list.splits)

text \<open>
  C10: whatever the flags and the analysis entry, the overlay that \<open>updateSuggestedMoves\<close>
  produces has at most 2 best highlights (at most 1 when the showing-best-move toggle is
  on) and at most 1 worst highlight (none when the toggle is on), and every highlight in
  it carries the piece code \<open>P\<close> of the placeholder white pawn.
\<close>

theorem updateSuggestedMoves_overlay_bounds:
  "length (orEmpty (best (updateSuggestedMoves ss sb ad))) \<le> 2
   \<and> (sb \<longrightarrow> length (orEmpty (best (updateSuggestedMoves ss sb ad))) \<le> 1)
   \<and> length (orEmpty (worst (updateSuggestedMoves ss sb ad))) \<le> 1
   \<and> (sb \<longrightarrow> orEmpty (worst (updateSuggestedMoves ss sb ad)) = [])
   \<and> (\<forall>h \<in> set (orEmpty (best (updateSuggestedMoves ss sb ad)))
             \<union> set (orEmpty (worst (updateSuggestedMoves ss sb ad))). piece h = ''P'')"
  using best_length [of ss sb ad] worst_length [of ss sb ad]
        best_pieces [of _ ss sb ad] worst_pieces [of _ ss sb ad]
  by (auto split: if_splits)


theorem updateSuggestedMoves_overlay_bounds_witness:
  "length (orEmpty (best (updateSuggestedMoves True False (Some demoAnalysis0)))) = 2
   \<and> length (orEmpty (worst (updateSuggestedMoves True False (Some demoAnalysis0)))) = 1
   \<and> length (orEmpty (best (updateSuggestedMoves True True (Some demoAnalysis0)))) = 1
   \<and> orEmpty (worst (updateSuggestedMoves True True (Some demoAnalysis0))) = []
   \<and> map piece (orEmpty (best (updateSuggestedMoves True False (Some demoAnalysis0))))
       = [''P'', ''P'']"
  using updateSuggestedMoves_overlay_bounds [of True False "Some demoAnalysis0"]
        updateSuggestedMoves_overlay_bounds [of True True "Some demoAnalysis0"]
  by (simp add: updateSuggestedMoves_def orEmpty_def demoAnalysis0_def Let_def upt_rec
        createMoveHighlight_pawn_white bestHighlight_def)


section \<open>Navigation: \<open>handleMoveChange\<close>\<close>

text \<open>What one call with a loaded game and an index in range does to each state cell.\<close>

lemma handleMoveChange_in_range:
  assumes "gameData s = Some g" "0 \<le> i" "i \<le> int (length (moves g))"
  shows "gameData (handleMoveChange sb i s) = Some g"
    and "currentMove (handleMoveChange sb i s) = i"
    and "showingBestMove (handleMoveChange sb i s) = False"
    and "moveHighlight (handleMoveChange sb i s)
          = (if i > 0 then Some (playedHighlight (moves g ! nat (i - 1))) else None)"
    and "suggestedMoves (handleMoveChange sb i s)
          = (if analysisAt g i \<noteq> None \<and> showSuggestedMoves s
             then updateSuggestedMoves (showSuggestedMoves s) sb (analysisAt g i)
             else noSuggestions)"
    and "previousPositionEval (handleMoveChange sb i s)
          = (case analysisAt g (currentMove s) of
               Some a \<Rightarrow> Some (a_evaluation a)
             | None \<Rightarrow> previousPositionEval s)"
    and "showSuggestedMoves (handleMoveChange sb i s) = showSuggestedMoves s"
    and "analyzeGame (handleMoveChange sb i s) = analyzeGame s"
    and "autoPlay (handleMoveChange sb i s) = autoPlay s"
    and "timers (handleMoveChange sb i s) = timers s"
    and "requests (handleMoveChange sb i s) = requests s @
          (if i > 0 \<and> analyzeGame s \<and> truthyStr (arrayAt (positions g) i)
              \<and> analysisAt g i = None
           then [\<lparr>r_fen = the (arrayAt (positions g) i), r_moveIndex = i,
                  r_showSuggestedMoves = showSuggestedMoves s, r_showingBestMove = sb\<rparr>]
           else [])"
  using assms
  by (simp_all add: handleMoveChange_def Let_def analyzePosition_def split: option.splits)

lemma handleMoveChange_outside:
  assumes "gameData s = Some g" "i < 0 \<or> i > int (length (moves g))"
  shows "handleMoveChange sb i s = s"
  using assms by (simp add: handleMoveChange_def)

lemma handleMoveChange_autoPlay: "autoPlay (handleMoveChange sb i s) = autoPlay s"
  by (simp add: handleMoveChange_def Let_def analyzePosition_def split: option.splits)

lemma demoGame_loaded: "gameData (loadedState g) = Some g"
  by (simp add: loadedState_def)

lemma demoGame_length: "int (length (moves demoGame)) = 2"
  by (simp add: demoGame_def demoMoves_def)

lemma demoGameAnalysed_length: "int (length (moves demoGameAnalysed)) = 2"
  by (simp add: demoGameAnalysed_def demoGame_def demoMoves_def)

text \<open>
  C1, as the specification states it: an index outside [0, N] is clamped, so that
  \<open>goTo(-5)\<close> gives the state of \<open>goTo(0)\<close> and \<open>goTo(N + 5)\<close> that of \<open>goTo(N)\<close>. The
  guard of \<open>handleMoveChange\<close> returns at once instead. In the two-ply game, at ply 2,
  \<open>handleMoveChange(-5)\<close> stays at ply 2 where \<open>handleMoveChange(0)\<close> goes to ply 0; at
  ply 0, \<open>handleMoveChange(7)\<close> stays at ply 0 where \<open>handleMoveChange(2)\<close> goes to ply 2.
\<close>

theorem handleMoveChange_clamp_counterexample:
  "handleMoveChange False (- 5) (handleMoveChange False 2 (loadedState demoGame))
     \<noteq> handleMoveChange False 0 (handleMoveChange False 2 (loadedState demoGame))
   \<and> handleMoveChange False 7 (loadedState demoGame)
     \<noteq> handleMoveChange False 2 (loadedState demoGame)"
proof -
  let ?s2 = "handleMoveChange False 2 (loadedState demoGame)"
  note at2 = handleMoveChange_in_range [OF demoGame_loaded, of 2 demoGame False]
  have g2: "gameData ?s2 = Some demoGame" and c2: "currentMove ?s2 = 2"
    using at2(1,2) by (simp_all add: demoGame_length)
  have "handleMoveChange False (- 5) ?s2 = ?s2"
    by (rule handleMoveChange_outside [OF g2]) simp
  then have a: "currentMove (handleMoveChange False (- 5) ?s2) = 2"
    using c2 by simp
  have b: "currentMove (handleMoveChange False 0 ?s2) = 0"
    using handleMoveChange_in_range(2) [OF g2, of 0 False] by (simp add: demoGame_length)
  have "handleMoveChange False 7 (loadedState demoGame) = loadedState demoGame"
    by (rule handleMoveChange_outside [OF demoGame_loaded]) (simp add: demoGame_length)
  then have c: "currentMove (handleMoveChange False 7 (loadedState demoGame)) = 0"
    by (simp add: loadedState_def)
  from a b have "handleMoveChange False (- 5) ?s2 \<noteq> handleMoveChange False 0 ?s2"
    by auto
  moreover from c c2 have "handleMoveChange False 7 (loadedState demoGame) \<noteq> ?s2"
    by auto
  ultimately show ?thesis by blast
qed

text \<open>
  C1, amended: for every loaded game with N moves and every integer index,
  \<open>handleMoveChange\<close> raises no error; an index outside [0, N] is not clamped but
  ignored, the whole state being left as it was; an index inside [0, N] becomes the
  current ply.
\<close>

theorem handleMoveChange_out_of_range_noop:
  assumes "gameData s = Some g"
  shows "(moveIndex < 0 \<or> moveIndex > int (length (moves g))
            \<longrightarrow> handleMoveChange sb moveIndex s = s)
       \<and> (0 \<le> moveIndex \<and> moveIndex \<le> int (length (moves g))
            \<longrightarrow> currentMove (handleMoveChange sb moveIndex s) = moveIndex)"
  using assms
  by (simp add: handleMoveChange_def Let_def analyzePosition_def split: option.splits)

theorem handleMoveChange_out_of_range_noop_witness:
  "gameData (loadedState demoGame) = Some demoGame
   \<and> handleMoveChange False (- 5) (loadedState demoGame) = loadedState demoGame
   \<and> handleMoveChange False 7 (loadedState demoGame) = loadedState demoGame
   \<and> currentMove (handleMoveChange False 2 (loadedState demoGame)) = 2"
  using handleMoveChange_out_of_range_noop [OF demoGame_loaded, of "- 5" demoGame False]
        handleMoveChange_out_of_range_noop [OF demoGame_loaded, of 7 demoGame False]
        handleMoveChange_out_of_range_noop [OF demoGame_loaded, of 2 demoGame False]
  by (simp add: demoGame_length demoGame_loaded)

text \<open>
  C8, as the specification states it: \<open>handleMoveChange(i)\<close> twice gives the same
  navigation state as once. It does not: the first step of the handler snapshots the
  evaluation of the ply it leaves, and on the second call that ply is \<open>i\<close> itself. In
  the analysed two-ply game, from ply 0, one call to ply 1 records the evaluation 0.2 of
  ply 0 as previous evaluation, a second call replaces it by the evaluation 0.3 of ply 1.
\<close>

theorem handleMoveChange_idempotent_counterexample:
  "previousPositionEval (handleMoveChange False 1 (loadedState demoGameAnalysed))
     = Some (2 / 10)
   \<and> previousPositionEval
       (handleMoveChange False 1 (handleMoveChange False 1 (loadedState demoGameAnalysed)))
     = Some (3 / 10)
   \<and> handleMoveChange False 1 (handleMoveChange False 1 (loadedState demoGameAnalysed))
     \<noteq> handleMoveChange False 1 (loadedState demoGameAnalysed)"
proof -
  have r: "(0::int) \<le> 1" "1 \<le> int (length (moves demoGameAnalysed))"
    by (simp_all add: demoGameAnalysed_length)
  note once = handleMoveChange_in_range [OF demoGame_loaded r, of False]
  note twice = handleMoveChange_in_range [OF once(1) r, of False]
  have a0: "analysisAt demoGameAnalysed 0 = Some demoAnalysis0"
    and a1: "analysisAt demoGameAnalysed 1 = Some demoAnalysis1"
    by (simp_all add: analysisAt_def arrayAt_def demoGameAnalysed_def)
  have 1: "previousPositionEval (handleMoveChange False 1 (loadedState demoGameAnalysed))
             = Some (2 / 10)"
    unfolding once(6) by (simp add: a0 loadedState_def demoAnalysis0_def)
  have 2: "previousPositionEval
             (handleMoveChange False 1 (handleMoveChange False 1 (loadedState demoGameAnalysed)))
             = Some (3 / 10)"
    unfolding twice(6) once(2) by (simp add: a1 demoAnalysis1_def)
  from 1 2
  have "handleMoveChange False 1 (handleMoveChange False 1 (loadedState demoGameAnalysed))
          \<noteq> handleMoveChange False 1 (loadedState demoGameAnalysed)"
    by auto
  with 1 2 show ?thesis by blast
qed

text \<open>
  C8, amended: for every loaded game and every in-range ply index \<open>i\<close>, applying
  \<open>handleMoveChange(i)\<close> twice in a row yields the same current ply index, primary
  highlight and showing-best-move toggle as applying it once, and the same
  suggested-move overlay when both calls close over the same value of the toggle. The
  previous-evaluation snapshot is not kept: after the second call it is the evaluation
  of ply \<open>i\<close>'s own analysis when that analysis is present, and unchanged otherwise.
\<close>

theorem handleMoveChange_twice:
  assumes "gameData s = Some g" "0 \<le> i" "i \<le> int (length (moves g))"
  shows "currentMove (handleMoveChange sb' i (handleMoveChange sb i s))
           = currentMove (handleMoveChange sb i s)
    \<and> moveHighlight (handleMoveChange sb' i (handleMoveChange sb i s))
           = moveHighlight (handleMoveChange sb i s)
    \<and> showingBestMove (handleMoveChange sb' i (handleMoveChange sb i s))
           = showingBestMove (handleMoveChange sb i s)
    \<and> (sb' = sb \<longrightarrow>
          suggestedMoves (handleMoveChange sb' i (handleMoveChange sb i s))
            = suggestedMoves (handleMoveChange sb i s))
    \<and> previousPositionEval (handleMoveChange sb' i (handleMoveChange sb i s))
        = (case analysisAt g i of
             Some a \<Rightarrow> Some (a_evaluation a)
           | None \<Rightarrow> previousPositionEval (handleMoveChange sb i s))"
proof -
  note once = handleMoveChange_in_range [OF assms, of sb]
  note twice = handleMoveChange_in_range [OF once(1) assms(2,3), of sb']
  show ?thesis
    unfolding twice(2,3,4,5,6) unfolding once(2,3,4,5,7) by simp
qed

theorem handleMoveChange_twice_witness:
  "gameData (loadedState demoGameAnalysed) = Some demoGameAnalysed
   \<and> (0::int) \<le> 1 \<and> 1 \<le> int (length (moves demoGameAnalysed))
   \<and> currentMove
       (handleMoveChange False 1 (handleMoveChange False 1 (loadedState demoGameAnalysed))) = 1
   \<and> moveHighlight
       (handleMoveChange False 1 (handleMoveChange False 1 (loadedState demoGameAnalysed)))
       = moveHighlight (handleMoveChange False 1 (loadedState demoGameAnalysed))
   \<and> suggestedMoves
       (handleMoveChange False 1 (handleMoveChange False 1 (loadedState demoGameAnalysed)))
       = suggestedMoves (handleMoveChange False 1 (loadedState demoGameAnalysed))
   \<and> previousPositionEval
       (handleMoveChange False 1 (handleMoveChange False 1 (loadedState demoGameAnalysed)))
       = Some (3 / 10)"
proof -
  have r: "(0::int) \<le> 1" "1 \<le> int (length (moves demoGameAnalysed))"
    by (simp_all add: demoGameAnalysed_length)
  have a1: "analysisAt demoGameAnalysed 1 = Some demoAnalysis1"
    by (simp add: analysisAt_def arrayAt_def demoGameAnalysed_def)
  have c: "currentMove (handleMoveChange False 1 (loadedState demoGameAnalysed)) = 1"
    using handleMoveChange_in_range(2) [OF demoGame_loaded r] .
  from handleMoveChange_twice [OF demoGame_loaded r, of False False] c r show ?thesis
    by (simp add: a1 demoAnalysis1_def demoGame_loaded)
qed


section \<open>Evaluation requests\<close>

lemma mergeAnalysis_at: "0 \<le> i \<Longrightarrow> analysisAt (mergeAnalysis g i d) i = Some d"
  by (simp add: mergeAnalysis_def analysisAt_def arrayAt_def Let_def)

text \<open>
  C3, as the specification states it: while the fetch for a ply is pending, no second
  request is sent for that ply. \<open>handleMoveChange\<close> only asks whether the table has an
  entry; nothing records that a request is in flight. With analysis mode on, two calls
  for ply 1 of the two-ply game leave two requests for ply 1 in flight, the table still
  having no entry for it.
\<close>

theorem handleMoveChange_duplicate_request_counterexample:
  "map r_moveIndex
     (requests (handleMoveChange False 1
        (handleMoveChange False 1 ((loadedState demoGame)\<lparr>analyzeGame := True\<rparr>))))
     = [1, 1]
   \<and> gameData (handleMoveChange False 1 ((loadedState demoGame)\<lparr>analyzeGame := True\<rparr>))
     = Some demoGame
   \<and> analysisAt demoGame 1 = None"
proof -
  have g: "gameData ((loadedState demoGame)\<lparr>analyzeGame := True\<rparr>) = Some demoGame"
    by (simp add: loadedState_def)
  have r: "(0::int) \<le> 1" "1 \<le> int (length (moves demoGame))"
    by (simp_all add: demoGame_length)
  note once = handleMoveChange_in_range [OF g r, of False]
  note twice = handleMoveChange_in_range [OF once(1) r, of False]
  have a: "analysisAt demoGame 1 = None" by (simp add: analysisAt_def demoGame_def)
  have p: "truthyStr (arrayAt (positions demoGame) 1)"
    by (simp add: truthyStr_def arrayAt_def demoGame_def demoPositions_def)
  show ?thesis
    unfolding twice(11) once(11) once(8) once(1)
    by (simp add: a p loadedState_def)
qed

text \<open>
  The same happens without the user revisiting the ply: after the handler has changed
  the current ply, the effect that follows \<open>currentMove\<close> calls the handler once more
  for the same ply, while the first request is still in flight.
\<close>

lemma navigation_effect_requests_again:
  "map r_moveIndex
     (requests (syncEffect
        (handleMoveChange False 1 ((loadedState demoGame)\<lparr>analyzeGame := True\<rparr>))))
     = [1, 1]"
proof -
  let ?s0 = "(loadedState demoGame)\<lparr>analyzeGame := True\<rparr>"
  let ?s1 = "handleMoveChange False 1 ?s0"
  have g: "gameData ?s0 = Some demoGame"
    by (simp add: loadedState_def)
  have r: "(0::int) \<le> 1" "1 \<le> int (length (moves demoGame))"
    by (simp_all add: demoGame_length)
  note once = handleMoveChange_in_range [OF g r, of False]
  note twice = handleMoveChange_in_range [OF once(1) r, of False]
  have e: "syncEffect ?s1 = handleMoveChange False 1 ?s1"
    unfolding syncEffect_def once(1) once(2) once(3) by simp
  have a: "analysisAt demoGame 1 = None" by (simp add: analysisAt_def demoGame_def)
  have p: "truthyStr (arrayAt (positions demoGame) 1)"
    by (simp add: truthyStr_def arrayAt_def demoGame_def demoPositions_def)
  show ?thesis
    unfolding e twice(11) once(11) once(8)
    by (simp add: a p loadedState_def)
qed

text \<open>
  C3, amended: \<open>handleMoveChange(i)\<close> for an in-range ply sends one evaluation request
  for ply \<open>i\<close> exactly when \<open>i > 0\<close>, analysis mode is on, the position of the ply is
  present and the AnalysisTable has no entry for \<open>i\<close>; requests in flight are not
  consulted, so a revisit before the response is merged sends another one. Once a
  response for ply \<open>i\<close> has been merged into the table, \<open>handleMoveChange(i)\<close> sends no
  request.
\<close>

theorem handleMoveChange_requests:
  assumes "gameData s = Some g" "0 \<le> i" "i \<le> int (length (moves g))"
  shows "requests (handleMoveChange sb i s) = requests s @
          (if i > 0 \<and> analyzeGame s \<and> truthyStr (arrayAt (positions g) i)
              \<and> analysisAt g i = None
           then [\<lparr>r_fen = the (arrayAt (positions g) i), r_moveIndex = i,
                  r_showSuggestedMoves = showSuggestedMoves s, r_showingBestMove = sb\<rparr>]
           else [])
    \<and> (r_moveIndex r = i \<longrightarrow>
          requests (handleMoveChange sb i (analysisResolved r d s))
            = requests (analysisResolved r d s))"
proof -
  have 1: "gameData (analysisResolved r d s) = Some (mergeAnalysis g (r_moveIndex r) d)"
    using assms(1) by (simp add: analysisResolved_def Let_def)
  have 2: "moves (mergeAnalysis g (r_moveIndex r) d) = moves g"
    by (simp add: mergeAnalysis_def Let_def)
  have 3: "i \<le> int (length (moves (mergeAnalysis g (r_moveIndex r) d)))"
    using assms(3) 2 by simp
  have "r_moveIndex r = i \<longrightarrow>
          requests (handleMoveChange sb i (analysisResolved r d s))
            = requests (analysisResolved r d s)"
    unfolding handleMoveChange_in_range(11) [OF 1 assms(2) 3]
    using mergeAnalysis_at [OF assms(2), of g d] by auto
  then show ?thesis
    using handleMoveChange_in_range(11) [OF assms, of sb] by blast
qed


theorem handleMoveChange_requests_witness:
  "gameData ((loadedState demoGame)\<lparr>analyzeGame := True\<rparr>) = Some demoGame
   \<and> requests (handleMoveChange False 1 ((loadedState demoGame)\<lparr>analyzeGame := True\<rparr>))
       = [demoRequest]
   \<and> r_moveIndex demoRequest = 1
   \<and> requests (handleMoveChange False 1 (analysisResolved demoRequest demoAnalysis1
        (handleMoveChange False 1 ((loadedState demoGame)\<lparr>analyzeGame := True\<rparr>)))) = []"
proof -
  let ?s0 = "(loadedState demoGame)\<lparr>analyzeGame := True\<rparr>"
  have g: "gameData ?s0 = Some demoGame"
    by (simp add: loadedState_def)
  have r: "(0::int) \<le> 1" "1 \<le> int (length (moves demoGame))"
    by (simp_all add: demoGame_length)
  have a: "analysisAt demoGame 1 = None" by (simp add: analysisAt_def demoGame_def)
  have p: "arrayAt (positions demoGame) 1 = Some (r_fen demoRequest)"
    by (simp add: arrayAt_def demoGame_def demoPositions_def demoRequest_def)
  have g1: "gameData (handleMoveChange False 1 ?s0) = Some demoGame"
    using handleMoveChange_in_range(1) [OF g r] .
  have 1: "requests (handleMoveChange False 1 ?s0) = [demoRequest]"
    using handleMoveChange_requests [OF g r, of False]
    by (simp add: a p truthyStr_def loadedState_def demoRequest_def)
  have m: "r_moveIndex demoRequest = 1" by (simp add: demoRequest_def)
  have "requests (analysisResolved demoRequest demoAnalysis1 (handleMoveChange False 1 ?s0)) = []"
    using 1 g1 by (simp add: analysisResolved_def Let_def)
  then have 2: "requests (handleMoveChange False 1 (analysisResolved demoRequest demoAnalysis1
        (handleMoveChange False 1 ?s0))) = []"
    using handleMoveChange_requests [OF g1 r, of False demoRequest demoAnalysis1] m by simp
  from g 1 m 2 show ?thesis by blast
qed


section \<open>Autoplay\<close>

lemma autoplayTick_idle: "\<not> intervalRunning s \<Longrightarrow> autoplayTick s = s"
  by (simp add: autoplayTick_def split: option.splits)

text \<open>No tick ever changes the autoplay flag: the branch that clears it is never taken.\<close>

lemma autoplayTick_keeps_flag: "autoPlay (autoplayTick s) = autoPlay s"
  by (auto simp: autoplayTick_def syncEffect_def handleMoveChange_autoPlay
      intervalRunning_def Let_def split: option.splits)

text \<open>
  A tick with the interval running advances the ply by exactly one and not beyond the
  number of moves; the interval runs on exactly when the new ply is below that number.
\<close>

lemma autoplayTick_step:
  assumes "gameData s = Some g" "intervalRunning s" "0 \<le> currentMove s"
  shows "currentMove (autoplayTick s) = currentMove s + 1"
    and "currentMove (autoplayTick s) \<le> int (length (moves g))"
    and "autoPlay (autoplayTick s)"
    and "intervalRunning (autoplayTick s) = (currentMove s + 1 < int (length (moves g)))"
proof -
  from assms have lt: "currentMove s < int (length (moves g))" and ap: "autoPlay s"
    by (simp_all add: intervalRunning_def)
  let ?s1 = "s\<lparr>currentMove := currentMove s + 1\<rparr>"
  have g1: "gameData ?s1 = Some g" using assms(1) by simp
  have r: "0 \<le> currentMove ?s1" "currentMove ?s1 \<le> int (length (moves g))"
    using assms(3) lt by simp_all
  note h = handleMoveChange_in_range [OF g1 r, of "showingBestMove ?s1"]
  have t: "autoplayTick s = handleMoveChange (showingBestMove ?s1) (currentMove ?s1) ?s1"
    using assms(1,2) lt by (simp add: autoplayTick_def syncEffect_def Let_def)
  show "currentMove (autoplayTick s) = currentMove s + 1" unfolding t h(2) by simp
  then show "currentMove (autoplayTick s) \<le> int (length (moves g))" using lt by simp
  show "autoPlay (autoplayTick s)" unfolding t h(9) using ap by simp
  show "intervalRunning (autoplayTick s) = (currentMove s + 1 < int (length (moves g)))"
    unfolding intervalRunning_def unfolding t h(1) h(2) h(9) using ap by simp
qed

text \<open>Pausing stops the interval: no tick happens until autoplay is switched on again.\<close>

lemma pause_cancels_interval:
  "autoPlay s \<Longrightarrow> \<not> intervalRunning (toggleAutoPlay s)
     \<and> autoplayTick (toggleAutoPlay s) = toggleAutoPlay s"
  by (simp add: autoplayTick_idle intervalRunning_def toggleAutoPlay_def split: option.splits)

text \<open>
  C4 asks that the autoplay flag be cleared when the index reaches N. The interval
  callback tries to (\<open>setAutoPlay(false)\<close> when \<open>prev >= moves.length\<close>), but the
  effect only sets an interval while \<open>currentMove < moves.length\<close> and resets it after
  every ply change, so the callback never runs at N. In the two-ply game, autoplay
  switched on at ply 1: the tick reaches ply 2, the last one; the flag is still set, no
  interval runs, and further ticks change nothing.
\<close>

theorem autoplay_flag_stays_set_at_end:
  "currentMove
     (autoplayTick (toggleAutoPlay (handleMoveChange False 1 (loadedState demoGame)))) = 2
   \<and> int (length (moves demoGame)) = 2
   \<and> autoPlay (autoplayTick (toggleAutoPlay (handleMoveChange False 1 (loadedState demoGame))))
   \<and> \<not> intervalRunning
         (autoplayTick (toggleAutoPlay (handleMoveChange False 1 (loadedState demoGame))))
   \<and> autoplayTick
       (autoplayTick (toggleAutoPlay (handleMoveChange False 1 (loadedState demoGame))))
     = autoplayTick (toggleAutoPlay (handleMoveChange False 1 (loadedState demoGame)))"
proof -
  let ?s = "toggleAutoPlay (handleMoveChange False 1 (loadedState demoGame))"
  note n = demoGame_length
  have r: "(0::int) \<le> 1" "1 \<le> int (length (moves demoGame))" using n by simp_all
  note h = handleMoveChange_in_range [OF demoGame_loaded r, of False]
  have g: "gameData ?s = Some demoGame" by (simp add: toggleAutoPlay_def h(1))
  have c: "currentMove ?s = 1" by (simp add: toggleAutoPlay_def h(2))
  have "\<not> autoPlay (loadedState demoGame)" by (simp add: loadedState_def)
  then have a: "autoPlay ?s" by (simp add: toggleAutoPlay_def h(9))
  have ir: "intervalRunning ?s" by (simp add: intervalRunning_def g c a n)
  have c0: "0 \<le> currentMove ?s" using c by simp
  note t = autoplayTick_step [OF g ir c0]
  have 1: "currentMove (autoplayTick ?s) = 2" using t(1) c by simp
  have 4: "\<not> intervalRunning (autoplayTick ?s)" using t(4) c n by simp
  have 5: "autoplayTick (autoplayTick ?s) = autoplayTick ?s"
    using 4 by (rule autoplayTick_idle)
  from 1 n t(3) 4 5 show ?thesis by blast
qed


section \<open>Previewing a suggested move\<close>




















section \<open>Highlight precedence on the board\<close>

lemma addBestMove_keeps: "m k \<noteq> None \<Longrightarrow> addBestMove m mv k = m k"
  by (auto simp: addBestMove_def Let_def)

lemma addWorstMove_keeps: "m k \<noteq> None \<Longrightarrow> addWorstMove m mv k = m k"
  by (auto simp: addWorstMove_def Let_def)

lemma foldl_addBestMove_keeps: "m k \<noteq> None \<Longrightarrow> foldl addBestMove m bs k = m k"
proof (induction bs arbitrary: m)
  case Nil
  then show ?case by simp
next
  case (Cons b bs)
  have "addBestMove m b k = m k" using Cons.prems by (rule addBestMove_keeps)
  moreover from this Cons.prems have "addBestMove m b k \<noteq> None" by simp
  ultimately show ?case using Cons.IH [of "addBestMove m b"] by simp
qed

lemma foldl_addWorstMove_keeps: "m k \<noteq> None \<Longrightarrow> foldl addWorstMove m ws k = m k"
proof (induction ws arbitrary: m)
  case Nil
  then show ?case by simp
next
  case (Cons w ws)
  have "addWorstMove m w k = m k" using Cons.prems by (rule addWorstMove_keeps)
  moreover from this Cons.prems have "addWorstMove m w k \<noteq> None" by simp
  ultimately show ?case using Cons.IH [of "addWorstMove m w"] by simp
qed

lemma allHighlights_keeps_primary:
  assumes "primaryHighlights hl k \<noteq> None"
  shows "allHighlights hl sm k = primaryHighlights hl k"
proof -
  let ?m1 = "case best sm of None \<Rightarrow> primaryHighlights hl
             | Some bs \<Rightarrow> foldl addBestMove (primaryHighlights hl) bs"
  have 1: "?m1 k = primaryHighlights hl k"
    using assms by (simp add: foldl_addBestMove_keeps split: option.splits)
  with assms have "?m1 k \<noteq> None" by simp
  then have "(case worst sm of None \<Rightarrow> ?m1 | Some ws \<Rightarrow> foldl addWorstMove ?m1 ws) k = ?m1 k"
    by (simp add: foldl_addWorstMove_keeps split: option.splits)
  with 1 show ?thesis by (simp add: allHighlights_def Let_def)
qed

lemma primaryHighlights_keys:
  "primaryHighlights (Some h) (squareKey (fromRow h) (fromCol h)) \<noteq> None"
  "primaryHighlights (Some h) (squareKey (toRow h) (toCol h)) \<noteq> None"
  "truthyStr (castling h) \<Longrightarrow>
     primaryHighlights (Some h)
       (squareKey (fromRow h) (if castling h = Some ''kingside'' then Num 7 else Num 0)) \<noteq> None"
  "truthyStr (castling h) \<Longrightarrow>
     primaryHighlights (Some h)
       (squareKey (fromRow h) (if castling h = Some ''kingside'' then Num 5 else Num 3)) \<noteq> None"
  by (simp_all add: primaryHighlights_def Let_def)

lemma primaryHighlights_entries:
  "primaryHighlights (Some h) k = Some e \<Longrightarrow> e = h \<or> e = h\<lparr>isRookCastling := Some True\<rparr>"
  by (auto simp: primaryHighlights_def Let_def split: if_splits)

lemma squareClasses_primary_to:
  assumes "squareKey (Num (int r)) (Num (int c)) = squareKey (toRow h) (toCol h)"
    and "squareKey (toRow h) (toCol h) \<noteq> squareKey (fromRow h) (fromCol h)"
  shows "squareClasses (Some h) (allHighlights (Some h) sm) p r c
           = (if isCapture h then ''bg-red-400'' else ''bg-green-400'', [])"
proof -
  have "allHighlights (Some h) sm (squareKey (toRow h) (toCol h)) \<noteq> None"
    using allHighlights_keeps_primary [OF primaryHighlights_keys(2), of h sm]
      primaryHighlights_keys(2) [of h] by simp
  then obtain e where e: "allHighlights (Some h) sm (squareKey (toRow h) (toCol h)) = Some e"
    by auto
  show ?thesis
    using assms e by (simp add: squareClasses_def Let_def)
qed

lemma squareClasses_primary_from:
  assumes "squareKey (Num (int r)) (Num (int c)) = squareKey (fromRow h) (fromCol h)"
  shows "squareClasses (Some h) (allHighlights (Some h) sm) p r c = (''bg-yellow-300'', [])"
proof -
  have "allHighlights (Some h) sm (squareKey (fromRow h) (fromCol h)) \<noteq> None"
    using allHighlights_keeps_primary [OF primaryHighlights_keys(1), of h sm]
      primaryHighlights_keys(1) [of h] by simp
  then obtain e where e: "allHighlights (Some h) sm (squareKey (fromRow h) (fromCol h)) = Some e"
    by auto
  show ?thesis
    using assms e by (simp add: squareClasses_def Let_def)
qed

text \<open>
  C6: every key that the primary highlight occupies (its origin, its destination and,
  for castling, the two rook squares) keeps its entry through the insertion of all best
  and worst suggested moves; that entry is the primary highlight itself or its copy
  marked as rook castling. So the square of the primary destination, also when a
  suggested move ends there, is drawn with the primary styling: red for a capture and
  green otherwise (yellow if it is the origin square as well), with no suggestion border.
\<close>

theorem allHighlights_primary_first:
  "(primaryHighlights hl k \<noteq> None \<longrightarrow> allHighlights hl sm k = primaryHighlights hl k)
   \<and> primaryHighlights (Some h) (squareKey (fromRow h) (fromCol h)) \<noteq> None
   \<and> primaryHighlights (Some h) (squareKey (toRow h) (toCol h)) \<noteq> None
   \<and> (truthyStr (castling h) \<longrightarrow>
        primaryHighlights (Some h)
          (squareKey (fromRow h) (if castling h = Some ''kingside'' then Num 7 else Num 0))
          \<noteq> None
        \<and> primaryHighlights (Some h)
          (squareKey (fromRow h) (if castling h = Some ''kingside'' then Num 5 else Num 3))
          \<noteq> None)
   \<and> (primaryHighlights (Some h) k \<noteq> None \<longrightarrow>
        allHighlights (Some h) sm k = Some h
        \<or> allHighlights (Some h) sm k = Some (h\<lparr>isRookCastling := Some True\<rparr>))
   \<and> (squareKey (Num (int r)) (Num (int c)) = squareKey (toRow h) (toCol h) \<longrightarrow>
        squareClasses (Some h) (allHighlights (Some h) sm) p r c
          = (if squareKey (toRow h) (toCol h) = squareKey (fromRow h) (fromCol h)
             then ''bg-yellow-300''
             else if isCapture h then ''bg-red-400'' else ''bg-green-400'', []))"
proof -
  have 1: "primaryHighlights hl k \<noteq> None \<longrightarrow> allHighlights hl sm k = primaryHighlights hl k"
    by (simp add: allHighlights_keeps_primary)
  have 5: "primaryHighlights (Some h) k \<noteq> None \<longrightarrow>
        allHighlights (Some h) sm k = Some h
        \<or> allHighlights (Some h) sm k = Some (h\<lparr>isRookCastling := Some True\<rparr>)"
    using primaryHighlights_entries [of h k] allHighlights_keeps_primary [of "Some h" k sm]
    by auto
  have 6: "squareKey (Num (int r)) (Num (int c)) = squareKey (toRow h) (toCol h) \<longrightarrow>
        squareClasses (Some h) (allHighlights (Some h) sm) p r c
          = (if squareKey (toRow h) (toCol h) = squareKey (fromRow h) (fromCol h)
             then ''bg-yellow-300''
             else if isCapture h then ''bg-red-400'' else ''bg-green-400'', [])"
    using squareClasses_primary_to [of r c h sm p] squareClasses_primary_from [of r c h sm p]
    by auto
  from 1 5 6 primaryHighlights_keys [of h] show ?thesis by blast
qed

lemma demoPrimary_value:
  "demoPrimary = \<lparr>fromRow = Num 6, fromCol = Num 4, toRow = Num 4, toCol = Num 4,
     piece = ''P'', isCapture = False, isCheck = False, isCheckmate = False,
     promotion = None, castling = None, isSuggested = None,
     evaluation = Some (3 / 10), isBestMove = None, isWorstMove = None,
     isFromBestMove = None, isRookCastling = None\<rparr>"
  by (simp add: demoPrimary_def playedHighlight_def demoMoves_def createMoveHighlight_def
      algebraicToIndices_def charCodeAt0_def charAt_def parseInt_def isDigit_def Let_def
      moveOptions_def noOptions_def pieceNameToChar_def orFalse_def truthyStr_def)

lemma squareKey_values:
  "squareKey (Num 4) (Num 4) = ''4-4''" "squareKey (Num 6) (Num 4) = ''6-4''"
  by (simp_all add: squareKey_def showNum_def showInt_def showNat.simps digitChar_def)

lemma demoOverlay_best_destinations:
  "map toRow (orEmpty (best demoOverlay)) = [Num 4, Num 4]"
  "map toCol (orEmpty (best demoOverlay)) = [Num 4, Num 3]"
  by (simp_all add: demoOverlay_def updateSuggestedMoves_def demoAnalysis0_def Let_def upt_rec
      orEmpty_def bestHighlight_def createMoveHighlight_def
      algebraicToIndices_def charCodeAt0_def charAt_def parseInt_def isDigit_def)

lemma demoCastle_value:
  "demoCastle = \<lparr>fromRow = Num 7, fromCol = Num 4, toRow = Num 7, toCol = Num 6,
     piece = ''K'', isCapture = False, isCheck = False, isCheckmate = False,
     promotion = None, castling = Some ''kingside'', isSuggested = None,
     evaluation = None, isBestMove = None, isWorstMove = None,
     isFromBestMove = None, isRookCastling = None\<rparr>"
  by (simp add: demoCastle_def createMoveHighlight_def
      algebraicToIndices_def charCodeAt0_def charAt_def parseInt_def isDigit_def Let_def
      noOptions_def pieceNameToChar_def orFalse_def truthyStr_def)

lemma demoCastleOverlay_destinations:
  "map toRow (orEmpty (best demoCastleOverlay)) = [Num 7]"
  "map toCol (orEmpty (best demoCastleOverlay)) = [Num 5]"
  by (simp_all add: demoCastleOverlay_def orEmpty_def bestHighlight_def createMoveHighlight_def
      algebraicToIndices_def charCodeAt0_def charAt_def parseInt_def isDigit_def Let_def)

lemma squareKey_castle_values:
  "squareKey (Num 7) (Num 4) = ''7-4''" "squareKey (Num 7) (Num 6) = ''7-6''"
  "squareKey (Num 7) (Num 7) = ''7-7''" "squareKey (Num 7) (Num 5) = ''7-5''"
  by (simp_all add: squareKey_def showNum_def showInt_def showNat.simps digitChar_def)

text \<open>
  In the first sample the first best move of the overlay ends on e4 (row 4, column 4),
  the destination of the played move; the entry and the styling of that square are the
  primary ones. In the second the best move ends on f1 (row 7, column 5), the rook's
  destination in the castling just played; the entry stays the rook-castling copy of
  the primary highlight.
\<close>

theorem allHighlights_primary_first_witness:
  "map toRow (orEmpty (best demoOverlay)) = [Num 4, Num 4]
   \<and> map toCol (orEmpty (best demoOverlay)) = [Num 4, Num 3]
   \<and> toRow demoPrimary = Num 4 \<and> toCol demoPrimary = Num 4
   \<and> allHighlights (Some demoPrimary) demoOverlay (squareKey (Num 4) (Num 4)) = Some demoPrimary
   \<and> squareClasses (Some demoPrimary) (allHighlights (Some demoPrimary) demoOverlay) ''P'' 4 4
       = (''bg-green-400'', [])
   \<and> truthyStr (castling demoCastle)
   \<and> map toRow (orEmpty (best demoCastleOverlay)) = [Num 7]
   \<and> map toCol (orEmpty (best demoCastleOverlay)) = [Num 5]
   \<and> allHighlights (Some demoCastle) demoCastleOverlay (squareKey (Num 7) (Num 5))
       = Some (demoCastle\<lparr>isRookCastling := Some True\<rparr>)"
proof -
  have t: "toRow demoPrimary = Num 4" "toCol demoPrimary = Num 4"
      "fromRow demoPrimary = Num 6" "fromCol demoPrimary = Num 4"
      "isRookCastling demoPrimary = None" "\<not> isCapture demoPrimary"
    by (simp_all add: demoPrimary_value)
  note c = allHighlights_primary_first
    [of "Some demoPrimary" "squareKey (Num 4) (Num 4)" demoOverlay demoPrimary 4 4 "''P''"]
  have p: "primaryHighlights (Some demoPrimary) (squareKey (Num 4) (Num 4)) = Some demoPrimary"
    by (simp add: primaryHighlights_def Let_def t squareKey_values demoPrimary_value truthyStr_def)
  from c p
  have 3: "allHighlights (Some demoPrimary) demoOverlay (squareKey (Num 4) (Num 4))
             = Some demoPrimary"
    by simp
  from c
  have 4: "squareClasses (Some demoPrimary) (allHighlights (Some demoPrimary) demoOverlay)
             ''P'' 4 4 = (''bg-green-400'', [])"
    by (simp add: t squareKey_values)
  have u: "toRow demoCastle = Num 7" "toCol demoCastle = Num 6"
      "fromRow demoCastle = Num 7" "fromCol demoCastle = Num 4"
      "castling demoCastle = Some ''kingside''"
    by (simp_all add: demoCastle_value)
  have ts: "truthyStr (castling demoCastle)" by (simp add: u truthyStr_def)
  note d = allHighlights_primary_first
    [of "Some demoCastle" "squareKey (Num 7) (Num 5)" demoCastleOverlay demoCastle 7 5 "''R''"]
  have q: "primaryHighlights (Some demoCastle) (squareKey (Num 7) (Num 5))
             = Some (demoCastle\<lparr>isRookCastling := Some True\<rparr>)"
    by (simp add: primaryHighlights_def Let_def u truthyStr_def squareKey_castle_values)
  from d q
  have 5: "allHighlights (Some demoCastle) demoCastleOverlay (squareKey (Num 7) (Num 5))
             = Some (demoCastle\<lparr>isRookCastling := Some True\<rparr>)"
    by simp
  from demoOverlay_best_destinations t(1,2) 3 4 ts demoCastleOverlay_destinations 5
  show ?thesis by simp
qed

end
